theory Spec2Isabelle
  imports Complex_Main "HOL-Library.Multiset" "HOL-Library.Char_ord" "HOL-Library.List_Lexorder"
begin

section \<open>The BCRA bureau client and eligibility analyzer of cityloan\<close>

text \<open>
  A shallow embedding of \<^verbatim>\<open>src/utils/bcraApi.ts\<close> and of the interfaces of
  \<^verbatim>\<open>src/types\<close> it uses.

  Conventions of the embedding:
  \<^item> a JavaScript \<^verbatim>\<open>number\<close> that holds a situation code, a status code, a year or a
    month is an \<open>int\<close>; \<^verbatim>\<open>NaN\<close> is \<open>None\<close> of \<open>int option\<close> where the code
    can produce it (\<^verbatim>\<open>parseInt\<close>, \<^verbatim>\<open>new Date\<close>);
  \<^item> a JavaScript string is a \<open>string\<close>, one \<open>char\<close> for each ASCII character; the
    accented letters and the sign "less than or equal" of the Spanish messages are
    written as their UTF-8 bytes;
  \<^item> \<^verbatim>\<open>null\<close> and \<^verbatim>\<open>undefined\<close> are \<open>None\<close>;
  \<^item> a thrown \<^verbatim>\<open>BCRAApiError\<close> is the left injection of a sum;
  \<^item> the wall clock and the network are parameters; the network calls made are
    returned as a list of the URLs requested;
  \<^item> \<^verbatim>\<open>console.log\<close>, \<^verbatim>\<open>console.warn\<close> and \<^verbatim>\<open>console.error\<close> are left out.
\<close>

subsection \<open>Data model (src/types)\<close>

record BCRAHistoricalEntity =
  entidad :: string
  situacion :: int
  monto :: real
  enRevision :: bool
  procesoJud :: bool

text \<open>
  \<^verbatim>\<open>BCRAEntity\<close> has every field of \<^verbatim>\<open>BCRAHistoricalEntity\<close> and six more.
\<close>

record BCRAEntity = BCRAHistoricalEntity +
  fechaSit1 :: "string option"
  diasAtrasoPago :: int
  refinanciaciones :: bool
  recategorizacionOblig :: bool
  situacionJuridica :: bool
  irrecDisposicionTecnica :: bool

text \<open>
  \<^verbatim>\<open>BCRAPeriod\<close> and \<^verbatim>\<open>BCRAHistoricalPeriod\<close>, and \<^verbatim>\<open>BCRADebtData\<close> and
  \<^verbatim>\<open>BCRAHistoricalData\<close>, differ in the type of the entities only.
\<close>

record 'e Period =
  periodo :: string
  entidades :: "'e list"

record 'e DebtData =
  identificacion :: int
  denominacion :: string
  periodos :: "'e Period list"

type_synonym BCRAPeriod = "BCRAEntity Period"
type_synonym BCRAHistoricalPeriod = "BCRAHistoricalEntity Period"
type_synonym BCRADebtData = "BCRAEntity DebtData"
type_synonym BCRAHistoricalData = "BCRAHistoricalEntity DebtData"

datatype BCRAStatus = BCRA_APTO | BCRA_NO_APTO | BCRA_PENDING

record BCRAEligibilityAnalysis =
  isEligible :: bool
  status :: BCRAStatus
  currentSituation :: "int option"
  last6MonthsWorstSituation :: "int option"
  last12MonthsWorstSituation :: "int option"
  failureReasons :: "string list"
  analysisDate :: string

text \<open>
  What the analyzer reads of a \<^verbatim>\<open>new Date()\<close>: the results of
  \<^verbatim>\<open>toISOString()\<close>, \<^verbatim>\<open>getFullYear()\<close> and \<^verbatim>\<open>getMonth()\<close> (January is 0).
\<close>

record Date =
  toISOString :: string
  getFullYear :: int
  getMonth :: int

subsection \<open>The JavaScript library functions used\<close>

definition isDigit :: "char \<Rightarrow> bool" where
  "isDigit c = (48 \<le> (of_char c :: nat) \<and> (of_char c :: nat) \<le> 57)"

text \<open>The ASCII members of the white space that \<^verbatim>\<open>parseInt\<close> skips.\<close>

definition isWhiteSpace :: "char \<Rightarrow> bool" where
  "isWhiteSpace c = ((of_char c :: nat) = 32 \<or> (9 \<le> (of_char c :: nat) \<and> (of_char c :: nat) \<le> 13))"

definition digitValue :: "char \<Rightarrow> nat option" where
  "digitValue c =
     (let n = (of_char c :: nat) in
      if 48 \<le> n \<and> n \<le> 57 then Some (n - 48)
      else if 97 \<le> n \<and> n \<le> 122 then Some (n - 87)
      else if 65 \<le> n \<and> n \<le> 90 then Some (n - 55)
      else None)"

definition isRadixDigit :: "nat \<Rightarrow> char \<Rightarrow> bool" where
  "isRadixDigit R c = (case digitValue c of Some v \<Rightarrow> v < R | None \<Rightarrow> False)"

definition digitsValue :: "nat \<Rightarrow> string \<Rightarrow> nat" where
  "digitsValue R ds = foldl (\<lambda>a c. R * a + (case digitValue c of Some v \<Rightarrow> v | None \<Rightarrow> 0)) 0 ds"

text \<open>
  \<^verbatim>\<open>parseInt(s)\<close> with no radix: leading white space is skipped, a sign is read, a
  prefix \<^verbatim>\<open>0x\<close> or \<^verbatim>\<open>0X\<close> selects radix 16, and the longest prefix of digits of the
  radix is the value; with no digit the result is \<^verbatim>\<open>NaN\<close>.
\<close>

definition parseInt :: "string \<Rightarrow> int option" where
  "parseInt s =
     (let s1 = dropWhile isWhiteSpace s;
          sgn1 = (case s1 of c # r \<Rightarrow> (if c = CHR ''-'' then - 1 else 1) | [] \<Rightarrow> (1::int));
          s2 = (case s1 of c # r \<Rightarrow> (if c = CHR ''-'' \<or> c = CHR ''+'' then r else s1) | [] \<Rightarrow> s1);
          hex = (case s2 of a # b # r \<Rightarrow> a = CHR ''0'' \<and> (b = CHR ''x'' \<or> b = CHR ''X'') | _ \<Rightarrow> False);
          R = (if hex then 16 else 10);
          s3 = (if hex then drop 2 s2 else s2);
          ds = takeWhile (isRadixDigit R) s3
      in if ds = [] then None else Some (sgn1 * int (digitsValue R ds)))"

text \<open>\<^verbatim>\<open>s.substring(a, b)\<close>: the indices are clamped to the length and swapped if needed.\<close>

definition substring :: "string \<Rightarrow> nat \<Rightarrow> nat \<Rightarrow> string" where
  "substring s a b = take (max a b - min a b) (drop (min a b) s)"

text \<open>
  \<^verbatim>\<open>a.localeCompare(b)\<close>: negative, zero or positive, by the collation of the
  locale. On strings of decimal digits, such as the labels \<^verbatim>\<open>YYYYMM\<close>, the
  collation is the comparison of the strings character by character, and that is the
  function below. On other strings the collation differs from it (a lower-case letter
  comes before another upper-case letter, and strings that are canonically equivalent
  compare equal), so every property below that depends on the order of the sort is
  stated for labels of decimal digits only.
\<close>

fun localeCompare :: "string \<Rightarrow> string \<Rightarrow> int" where
  "localeCompare [] [] = 0"
| "localeCompare [] (y # ys) = - 1"
| "localeCompare (x # xs) [] = 1"
| "localeCompare (x # xs) (y # ys) =
     (if (of_char x :: nat) < of_char y then - 1
      else if (of_char y :: nat) < of_char x then 1
      else localeCompare xs ys)"

text \<open>
  \<^verbatim>\<open>Array.prototype.sort(compareFn)\<close> is a stable sort: \<open>a\<close> comes before \<open>b\<close> when
  \<open>compareFn a b < 0\<close>, and elements that compare equal keep their order.
\<close>

fun sortInsert :: "('a \<Rightarrow> 'a \<Rightarrow> int) \<Rightarrow> 'a \<Rightarrow> 'a list \<Rightarrow> 'a list" where
  "sortInsert compareFn a [] = [a]"
| "sortInsert compareFn a (b # bs) =
     (if compareFn a b \<le> 0 then a # b # bs else b # sortInsert compareFn a bs)"

fun Array_sort :: "('a \<Rightarrow> 'a \<Rightarrow> int) \<Rightarrow> 'a list \<Rightarrow> 'a list" where
  "Array_sort compareFn [] = []"
| "Array_sort compareFn (a # as) = sortInsert compareFn a (Array_sort compareFn as)"

text \<open>\<^verbatim>\<open>Math.max(x, ...xs)\<close> with at least one argument.\<close>

definition Math_max :: "int \<Rightarrow> int list \<Rightarrow> int" where
  "Math_max x xs = fold max xs x"

text \<open>
  \<^verbatim>\<open>new Date(year, monthIndex)\<close> is midnight, local time, of the first day of a month.
  It is represented by the number of that month, \<open>12 * year + monthIndex\<close>, which
  orders as the time values do; a month index outside 0..11 carries into the year, and
  a year from 0 to 99 stands for 1900 + year. With a \<^verbatim>\<open>NaN\<close> argument the date is
  invalid (\<open>None\<close>). The range limit of time values (about 270000 years around 1970) is
  not modelled.
\<close>

definition new_Date :: "int option \<Rightarrow> int option \<Rightarrow> int option" where
  "new_Date year monthIndex =
     (case year of None \<Rightarrow> None
      | Some y \<Rightarrow> (case monthIndex of None \<Rightarrow> None
         | Some m \<Rightarrow> Some (12 * (if 0 \<le> y \<and> y \<le> 99 then 1900 + y else y) + m)))"

text \<open>\<open>a >= b\<close> on dates compares the time values; it is false when one is \<^verbatim>\<open>NaN\<close>.\<close>

definition date_ge :: "int option \<Rightarrow> int option \<Rightarrow> bool" where
  "date_ge a b = (case a of None \<Rightarrow> False | Some x \<Rightarrow> (case b of None \<Rightarrow> False | Some y \<Rightarrow> y \<le> x))"

text \<open>
  The string that a template literal gives a Number with an integer value
  (\<^verbatim>\<open>Number::toString\<close> of ECMA-262, radix 10). \<open>natToString\<close> writes all the decimal
  digits of a natural number.
\<close>

fun natToString :: "nat \<Rightarrow> string" where
  "natToString n =
     (if n < 10 then [char_of (48 + n)]
      else natToString (n div 10) @ [char_of (48 + n mod 10)])"

declare natToString.simps [simp del]

text \<open>
  The Number nearest to an integer: the integer itself up to 53 bits, and beyond that
  the nearest multiple of the spacing of the Numbers of that size, a tie going to the
  even multiple. (The overflow to \<^verbatim>\<open>Infinity\<close> is not modelled.)
\<close>

fun bitLength :: "nat \<Rightarrow> nat" where
  "bitLength n = (if n = 0 then 0 else Suc (bitLength (n div 2)))"

declare bitLength.simps [simp del]

definition toNumber :: "nat \<Rightarrow> nat" where
  "toNumber y =
     (if bitLength y \<le> 53 then y
      else
        (let q = 2 ^ (bitLength y - 53); d = y div q; r = y mod q
         in if 2 * r < q then d * q
            else if q < 2 * r then (d + 1) * q
            else if even d then d * q else (d + 1) * q))"

text \<open>
  The digits \<open>s\<close> and the exponent \<open>n\<close> of the conversion: \<open>s\<close> has \<open>k\<close> digits,
  \<open>s * 10 ^ (n - k)\<close> is a decimal number whose nearest Number is \<open>x\<close>, and \<open>k\<close> is
  as small as possible; of two such \<open>s\<close> the one nearest to \<open>x\<close> is taken. \<open>N\<close> is
  the number of decimal digits of \<open>x\<close>, and the search starts at \<open>k = 1\<close>.
\<close>

function shortestDigits :: "nat \<Rightarrow> nat \<Rightarrow> nat \<Rightarrow> nat \<times> nat" where
  "shortestDigits x N k =
     (if N \<le> k then (x, N)
      else
        (let p = 10 ^ (N - k); lo = x div p; hi = lo + 1;
             okLo = (toNumber (lo * p) = x); okHi = (toNumber (hi * p) = x);
             up = (if hi = 10 ^ k then (1, N + 1) else (hi, N))
         in if okLo \<and> okHi then
              (if x - lo * p < hi * p - x then (lo, N)
               else if hi * p - x < x - lo * p then up
               else if even lo then (lo, N) else up)
            else if okLo then (lo, N)
            else if okHi then up
            else shortestDigits x N (Suc k)))"
  by pat_completeness auto
termination
  by (relation "measure (\<lambda>(x, N, k). N - k)") auto

declare shortestDigits.simps [simp del]

text \<open>
  Up to 21 digits before the decimal point the digits are followed by zeros; from 22
  digits on the exponent form is used (\<^verbatim>\<open>1e+21\<close>).
\<close>

definition numberToString :: "nat \<Rightarrow> string" where
  "numberToString x =
     (if x = 0 then ''0''
      else
        (let (s, n) = shortestDigits x (length (natToString x)) 1;
             ds = natToString s; k = length ds
         in if n \<le> 21 then ds @ replicate (n - k) (CHR ''0'')
            else if k = 1 then ds @ ''e+'' @ natToString (n - 1)
            else take 1 ds @ ''.'' @ drop 1 ds @ ''e+'' @ natToString (n - 1)))"

definition Number_toString :: "int \<Rightarrow> string" where
  "Number_toString n =
     (if n < 0 then CHR ''-'' # numberToString (nat (- n)) else numberToString (nat n))"

subsection \<open>analyzeBCRAEligibility (src/utils/bcraApi.ts)\<close>

text \<open>The failure reasons; the letters with an accent are two bytes each.\<close>

definition reasonNoData :: string where
  "reasonNoData = ''No hay datos disponibles en BCRA''"

definition reasonNoHistorical :: string where
  "reasonNoHistorical =
     ''No hay datos hist'' @ [CHR 0xC3, CHR 0xB3] @ ''ricos disponibles para an''
       @ [CHR 0xC3, CHR 0xA1] @ ''lisis completo''"

definition reasonNoPeriods :: string where
  "reasonNoPeriods =
     ''No hay per'' @ [CHR 0xC3, CHR 0xAD] @ ''odos disponibles en el historial''"

definition reasonCurrent :: "int \<Rightarrow> string" where
  "reasonCurrent n =
     ''Situaci'' @ [CHR 0xC3, CHR 0xB3] @ ''n actual: '' @ Number_toString n
       @ '' (debe ser '' @ [CHR 0xE2, CHR 0x89, CHR 0xA4] @ '' 1)''"

definition reason6Months :: "int \<Rightarrow> string" where
  "reason6Months n =
     ''Peor situaci'' @ [CHR 0xC3, CHR 0xB3] @ ''n '' @ [CHR 0xC3, CHR 0xBA] @ ''ltimos 6 meses: ''
       @ Number_toString n @ '' (debe ser '' @ [CHR 0xE2, CHR 0x89, CHR 0xA4] @ '' 1)''"

definition reason12Months :: "int \<Rightarrow> string" where
  "reason12Months n =
     ''Peor situaci'' @ [CHR 0xC3, CHR 0xB3] @ ''n '' @ [CHR 0xC3, CHR 0xBA] @ ''ltimos 12 meses: ''
       @ Number_toString n @ '' (debe ser '' @ [CHR 0xE2, CHR 0x89, CHR 0xA4] @ '' 2)''"

text \<open>
  \<^verbatim>\<open>getWorstSituationForPeriod\<close>: 1 for a period with no entity, else the greatest
  situation code. (\<^verbatim>\<open>!periodo.entidades\<close> is false for every array.)
\<close>

definition getWorstSituationForPeriod :: "('a BCRAHistoricalEntity_scheme, 'b) Period_scheme \<Rightarrow> int" where
  "getWorstSituationForPeriod p =
     (case map situacion (entidades p) of
        [] \<Rightarrow> 1
      | s # ss \<Rightarrow> Math_max s ss)"

text \<open>
  \<^verbatim>\<open>isPeriodWithinMonths\<close>, a closure over \<^verbatim>\<open>currentYear\<close> and \<^verbatim>\<open>currentMonth\<close>
  in the source.
\<close>

definition isPeriodWithinMonths :: "int \<Rightarrow> int \<Rightarrow> string \<Rightarrow> int \<Rightarrow> bool" where
  "isPeriodWithinMonths currentYear currentMonth periodo' months =
     (let periodoYear = parseInt (substring periodo' 0 4);
          periodoMonth = parseInt (substring periodo' 4 6);
          periodoDate = new_Date periodoYear (map_option (\<lambda>m. m - 1) periodoMonth);
          cutoffDate = new_Date (Some currentYear) (Some (currentMonth - 1 - months))
      in date_ge periodoDate cutoffDate)"

text \<open>
  The analyzer. \<open>stamp\<close> is the first \<^verbatim>\<open>new Date()\<close> of the source (for
  \<^verbatim>\<open>analysisDate\<close>) and \<open>currentDate\<close> the second one. The record \<open>analysis\<close> that the
  source mutates is passed from step to step, and each test \<^verbatim>\<open>length > 0\<close> before a
  \<^verbatim>\<open>Math.max\<close> is the case distinction on the list. The constant \<^verbatim>\<open>currentPeriod\<close>
  of the source is never read and is left out.
\<close>

definition analyzeBCRAEligibility ::
    "Date \<Rightarrow> Date \<Rightarrow> BCRADebtData option \<Rightarrow> BCRAHistoricalData option \<Rightarrow> BCRAEligibilityAnalysis" where
  "analyzeBCRAEligibility stamp currentDate currentData historicalData =
     (let analysis = \<lparr> isEligible = False, status = BCRA_PENDING, currentSituation = None,
                       last6MonthsWorstSituation = None, last12MonthsWorstSituation = None,
                       failureReasons = [], analysisDate = toISOString stamp \<rparr>
      in
      if currentData = None \<and> historicalData = None then
        analysis\<lparr> failureReasons := failureReasons analysis @ [reasonNoData] \<rparr>
      else case historicalData of
        None \<Rightarrow> analysis\<lparr> failureReasons := failureReasons analysis @ [reasonNoHistorical] \<rparr>
      | Some h \<Rightarrow>
         (let sortedPeriods =
                Array_sort (\<lambda>a b. localeCompare (periodo b) (periodo a)) (periodos h)
          in case sortedPeriods of
            [] \<Rightarrow> analysis\<lparr> failureReasons := failureReasons analysis @ [reasonNoPeriods] \<rparr>
          | mostRecentPeriod # _ \<Rightarrow>
             (let currentYear = getFullYear currentDate;
                  currentMonth = getMonth currentDate + 1;
                  cs = getWorstSituationForPeriod mostRecentPeriod;
                  analysis1 = analysis\<lparr> currentSituation := Some cs \<rparr>;
                  analysis2 =
                    (if cs > 1
                     then analysis1\<lparr> failureReasons := failureReasons analysis1 @ [reasonCurrent cs] \<rparr>
                     else analysis1);
                  last6MonthsPeriods =
                    filter (\<lambda>p. isPeriodWithinMonths currentYear currentMonth (periodo p) 6) sortedPeriods;
                  analysis3 =
                    (case map getWorstSituationForPeriod last6MonthsPeriods of
                       [] \<Rightarrow> analysis2
                     | w # ws \<Rightarrow>
                        (let m = Math_max w ws;
                             a = analysis2\<lparr> last6MonthsWorstSituation := Some m \<rparr>
                         in if m > 1
                            then a\<lparr> failureReasons := failureReasons a @ [reason6Months m] \<rparr>
                            else a));
                  last12MonthsPeriods =
                    filter (\<lambda>p. isPeriodWithinMonths currentYear currentMonth (periodo p) 12) sortedPeriods;
                  analysis4 =
                    (case map getWorstSituationForPeriod last12MonthsPeriods of
                       [] \<Rightarrow> analysis3
                     | w # ws \<Rightarrow>
                        (let m = Math_max w ws;
                             a = analysis3\<lparr> last12MonthsWorstSituation := Some m \<rparr>
                         in if m > 2
                            then a\<lparr> failureReasons := failureReasons a @ [reason12Months m] \<rparr>
                            else a));
                  analysis5 = analysis4\<lparr> isEligible := (length (failureReasons analysis4) = 0) \<rparr>
              in analysis5\<lparr> status := (if isEligible analysis5 then BCRA_APTO else BCRA_NO_APTO) \<rparr>)))"

subsection \<open>The bureau client (src/utils/bcraApi.ts)\<close>

text \<open>
  \<^verbatim>\<open>new BCRAApiError(message, status, errorMessages = [])\<close>; a thrown one is the
  \<open>Inl\<close> of the result.
\<close>

datatype BCRAApiError = BCRAApiError (message: string) (status': int) (errorMessages: "string list")

text \<open>
  The envelope \<^verbatim>\<open>{status, results?, errorMessages?}\<close> of \<^verbatim>\<open>BCRAApiResponse\<close> and
  \<^verbatim>\<open>BCRAHistoricalApiResponse\<close>.
\<close>

datatype 'r ApiResponse =
  ApiResponse (responseStatus: int) (results: "'r option") (responseErrorMessages: "string list option")

text \<open>
  What the network does with a request: either \<^verbatim>\<open>await fetch(url)\<close> or
  \<^verbatim>\<open>await response.json()\<close> throws an error that is not a \<^verbatim>\<open>BCRAApiError\<close> (of
  which the code reads whether it is a \<^verbatim>\<open>TypeError\<close>, and its message), or the body
  is parsed to an envelope.
\<close>

datatype JsError = JsError (isTypeError: bool) (jsMessage: string)

datatype 'r FetchOutcome = Rejected JsError | Resolved "'r ApiResponse"

text \<open>\<^verbatim>\<open>s.includes(t)\<close>: \<open>t\<close> occurs in \<open>s\<close>.\<close>

fun String_includes :: "string \<Rightarrow> string \<Rightarrow> bool" where
  "String_includes [] t = (t = [])"
| "String_includes (c # s) t = (take (length t) (c # s) = t \<or> String_includes s t)"

definition BCRA_API_BASE_URL :: string where
  "BCRA_API_BASE_URL = ''https://api.bcra.gob.ar/CentralDeDeudores/v1.0''"

definition msgParametroErroneo :: string where
  "msgParametroErroneo =
     ''Par'' @ [CHR 0xC3, CHR 0xA1] @ ''metro err'' @ [CHR 0xC3, CHR 0xB3] @ ''neo: Ingresar 11 d''
       @ [CHR 0xC3, CHR 0xAD] @ ''gitos para realizar la consulta.''"

definition msgNoSeEncontro :: string where
  "msgNoSeEncontro =
     ''No se encontr'' @ [CHR 0xC3, CHR 0xB3] @ '' datos para la identificaci''
       @ [CHR 0xC3, CHR 0xB3] @ ''n ingresada.''"

definition msgErrorAccion :: string where
  "msgErrorAccion = ''Se produjo un error al ejecutar la acci'' @ [CHR 0xC3, CHR 0xB3] @ ''n.''"

definition msgErrorConexion :: string where
  "msgErrorConexion =
     ''Error de conexi'' @ [CHR 0xC3, CHR 0xB3] @ ''n con la API del BCRA. Verifique su conexi''
       @ [CHR 0xC3, CHR 0xB3] @ ''n a internet.''"

definition msgErrorInesperado :: string where
  "msgErrorInesperado = ''Error inesperado al consultar la API del BCRA.''"

text \<open>
  The result is the list of the URLs requested, and the record or the error thrown.
  \<^verbatim>\<open>cuit.replace(/\D/g, '')\<close> keeps the decimal digits; \<^verbatim>\<open>x || d\<close> is \<open>d\<close> when
  \<open>x\<close> is missing.
\<close>

definition fetchBCRADebtData ::
    "(string \<Rightarrow> BCRADebtData FetchOutcome) \<Rightarrow> string \<Rightarrow> string list \<times> (BCRAApiError + BCRADebtData)" where
  "fetchBCRADebtData net cuit =
     (let cleanCuit = filter isDigit cuit in
      if length cleanCuit \<noteq> 11 then
        ([], Inl (BCRAApiError ''CUIT must have exactly 11 digits'' 400 [msgParametroErroneo]))
      else
        (let url = BCRA_API_BASE_URL @ ''/Deudas/'' @ cleanCuit in
         ([url],
          case net url of
            Resolved data \<Rightarrow>
              (if responseStatus data = 200 then
                 (case results data of
                    Some r \<Rightarrow> Inr r
                  | None \<Rightarrow> Inl (BCRAApiError ''No results in successful response'' 200 []))
               else if responseStatus data = 400 then
                 Inl (BCRAApiError ''Invalid CUIT format'' 400
                       (case responseErrorMessages data of Some ms \<Rightarrow> ms | None \<Rightarrow> [msgParametroErroneo]))
               else if responseStatus data = 404 then
                 Inl (BCRAApiError ''No data found for the provided CUIT'' 404
                       (case responseErrorMessages data of Some ms \<Rightarrow> ms | None \<Rightarrow> [msgNoSeEncontro]))
               else if responseStatus data = 500 then
                 Inl (BCRAApiError ''BCRA server error'' 500
                       (case responseErrorMessages data of Some ms \<Rightarrow> ms | None \<Rightarrow> [msgErrorAccion]))
               else
                 Inl (BCRAApiError (''Unexpected response status: '' @ Number_toString (responseStatus data))
                       (responseStatus data)
                       (case responseErrorMessages data of Some ms \<Rightarrow> ms | None \<Rightarrow> [])))
          | Rejected error \<Rightarrow>
              (if isTypeError error \<and> String_includes (jsMessage error) ''fetch'' then
                 Inl (BCRAApiError ''Network error: Unable to connect to BCRA API'' 0 [msgErrorConexion])
               else
                 Inl (BCRAApiError ''Unexpected error occurred'' 0 [msgErrorInesperado])))))"

definition fetchBCRAHistoricalData ::
    "(string \<Rightarrow> BCRAHistoricalData FetchOutcome) \<Rightarrow> string
       \<Rightarrow> string list \<times> (BCRAApiError + BCRAHistoricalData)" where
  "fetchBCRAHistoricalData net cuit =
     (let cleanCuit = filter isDigit cuit in
      if length cleanCuit \<noteq> 11 then
        ([], Inl (BCRAApiError ''CUIT must have exactly 11 digits'' 400 [msgParametroErroneo]))
      else
        (let url = BCRA_API_BASE_URL @ ''/Deudas/Historicas/'' @ cleanCuit in
         ([url],
          case net url of
            Resolved data \<Rightarrow>
              (if responseStatus data = 200 then
                 (case results data of
                    Some r \<Rightarrow> Inr r
                  | None \<Rightarrow> Inl (BCRAApiError ''No results in successful response'' 200 []))
               else if responseStatus data = 400 then
                 Inl (BCRAApiError ''Invalid CUIT format'' 400
                       (case responseErrorMessages data of Some ms \<Rightarrow> ms | None \<Rightarrow> [msgParametroErroneo]))
               else if responseStatus data = 404 then
                 Inl (BCRAApiError ''No historical data found for the provided CUIT'' 404
                       (case responseErrorMessages data of Some ms \<Rightarrow> ms | None \<Rightarrow> [msgNoSeEncontro]))
               else if responseStatus data = 500 then
                 Inl (BCRAApiError ''BCRA server error'' 500
                       (case responseErrorMessages data of Some ms \<Rightarrow> ms | None \<Rightarrow> [msgErrorAccion]))
               else
                 Inl (BCRAApiError (''Unexpected response status: '' @ Number_toString (responseStatus data))
                       (responseStatus data)
                       (case responseErrorMessages data of Some ms \<Rightarrow> ms | None \<Rightarrow> [])))
          | Rejected error \<Rightarrow>
              (if isTypeError error \<and> String_includes (jsMessage error) ''fetch'' then
                 Inl (BCRAApiError ''Network error: Unable to connect to BCRA API'' 0 [msgErrorConexion])
               else
                 Inl (BCRAApiError ''Unexpected error occurred'' 0 [msgErrorInesperado])))))"

subsection \<open>The notions of the specification\<close>

text \<open>
  The worst situation of a period: the greatest situation code of its entities, and 1
  for a period with no entity.
\<close>

definition worstSituation :: "('a BCRAHistoricalEntity_scheme, 'b) Period_scheme \<Rightarrow> int" where
  "worstSituation p = (if entidades p = [] then 1 else Max (situacion ` set (entidades p)))"

text \<open>
  A period carries the greatest label of a list when no label of the list is greater
  in the lexicographic order of strings. The most recent period by label is the first
  period of the list that carries the greatest label.
\<close>

definition carriesGreatestLabel :: "('e, 'b) Period_scheme list \<Rightarrow> ('e, 'b) Period_scheme \<Rightarrow> bool" where
  "carriesGreatestLabel ps p = list_all (\<lambda>q. periodo q \<le> periodo p) ps"

definition mostRecentByLabel :: "('e, 'b) Period_scheme list \<Rightarrow> ('e, 'b) Period_scheme option" where
  "mostRecentByLabel ps = find (carriesGreatestLabel ps) ps"

text \<open>
  A label \<^verbatim>\<open>YYYYMM\<close>: six decimal digits. Its year and month are the values of the
  first four and of the last two digits, and its first-of-month date is counted in
  months, as is the month of the evaluation date.
\<close>

definition decimalValue :: "string \<Rightarrow> nat" where
  "decimalValue ds = foldl (\<lambda>a c. 10 * a + (of_char c - 48)) 0 ds"

definition labelYear :: "string \<Rightarrow> int" where
  "labelYear l = int (decimalValue (take 4 l))"

definition labelMonth :: "string \<Rightarrow> int" where
  "labelMonth l = int (decimalValue (drop 4 l))"

definition firstOfMonth :: "string \<Rightarrow> int" where
  "firstOfMonth l = 12 * labelYear l + (labelMonth l - 1)"

definition evaluationMonth :: "Date \<Rightarrow> int" where
  "evaluationMonth d = 12 * getFullYear d + getMonth d"

text \<open>
  "Within N months": the first-of-month date of the period is on or after the
  evaluation month minus N.
\<close>

definition withinMonths :: "Date \<Rightarrow> int \<Rightarrow> string \<Rightarrow> bool" where
  "withinMonths d N l = (evaluationMonth d - N \<le> firstOfMonth l)"

definition qualifying :: "Date \<Rightarrow> int \<Rightarrow> ('e, 'b) Period_scheme list \<Rightarrow> ('e, 'b) Period_scheme list" where
  "qualifying d N ps = filter (\<lambda>p. withinMonths d N (periodo p)) ps"

text \<open>
  The labels the theorems on the windows are about: six digits, with a year from 0100
  on (the constructor of dates reads a year below 100 as a year of the 20th century).
\<close>

definition wellFormedLabel :: "string \<Rightarrow> bool" where
  "wellFormedLabel l = (length l = 6 \<and> list_all isDigit l \<and> 100 \<le> labelYear l)"

definition wellFormedLabels :: "('e, 'b) Period_scheme list \<Rightarrow> bool" where
  "wellFormedLabels ps = list_all (\<lambda>p. wellFormedLabel (periodo p)) ps"

text \<open>
  The labels the theorems on the order of the sort are about: decimal digits only, as
  the labels \<^verbatim>\<open>YYYYMM\<close> are.
\<close>

definition digitLabels :: "('e, 'b) Period_scheme list \<Rightarrow> bool" where
  "digitLabels ps = list_all (\<lambda>p. list_all isDigit (periodo p)) ps"

subsection \<open>The steps of the analyzer\<close>

text \<open>
  The sorted list of the analyzer, the periods its window filter keeps, the value a
  window check stores, and the reason a check appends for a value above its limit.
\<close>

definition sortedPeriodsOf :: "('e, 'b) Period_scheme list \<Rightarrow> ('e, 'b) Period_scheme list" where
  "sortedPeriodsOf ps = Array_sort (\<lambda>a b. localeCompare (periodo b) (periodo a)) ps"

definition windowPeriods :: "Date \<Rightarrow> int \<Rightarrow> ('e, 'b) Period_scheme list \<Rightarrow> ('e, 'b) Period_scheme list" where
  "windowPeriods currentDate months ps =
     filter (\<lambda>p. isPeriodWithinMonths (getFullYear currentDate) (getMonth currentDate + 1) (periodo p) months) ps"

definition windowWorst ::
    "Date \<Rightarrow> int \<Rightarrow> ('a BCRAHistoricalEntity_scheme, 'b) Period_scheme list \<Rightarrow> int option" where
  "windowWorst currentDate months ps =
     (case map getWorstSituationForPeriod (windowPeriods currentDate months ps) of
        [] \<Rightarrow> None
      | w # ws \<Rightarrow> Some (Math_max w ws))"

definition exceeding :: "int \<Rightarrow> (int \<Rightarrow> string) \<Rightarrow> int option \<Rightarrow> string list" where
  "exceeding limit reason v = (case v of None \<Rightarrow> [] | Some n \<Rightarrow> (if limit < n then [reason n] else []))"

subsection \<open>Example inputs\<close>

definition exEntity :: "int \<Rightarrow> BCRAHistoricalEntity" where
  "exEntity s = \<lparr> entidad = ''BANCO'', situacion = s, monto = 0, enRevision = False, procesoJud = False \<rparr>"

definition exCurrentEntity :: "int \<Rightarrow> BCRAEntity" where
  "exCurrentEntity s =
     \<lparr> entidad = ''BANCO'', situacion = s, monto = 0, enRevision = False, procesoJud = False,
       fechaSit1 = None, diasAtrasoPago = 0, refinanciaciones = False, recategorizacionOblig = False,
       situacionJuridica = False, irrecDisposicionTecnica = False \<rparr>"

text \<open>The evaluation date of the examples: March 2024.\<close>

definition exDate :: Date where
  "exDate = \<lparr> toISOString = ''2024-03-15T12:00:00.000Z'', getFullYear = 2024, getMonth = 2 \<rparr>"

text \<open>The record of the specification's example: 202401 with [1], 202312 with [2, 3].\<close>

definition exHistorical :: BCRAHistoricalData where
  "exHistorical =
     \<lparr> identificacion = 20123456789, denominacion = ''CLIENTE'',
       periodos = [\<lparr> periodo = ''202401'', entidades = [exEntity 1] \<rparr>,
                   \<lparr> periodo = ''202312'', entidades = [exEntity 2, exEntity 3] \<rparr>] \<rparr>"

text \<open>
  A record with a period exactly six months before the evaluation date, and an older
  one.
\<close>

definition exBoundary :: BCRAHistoricalData where
  "exBoundary =
     \<lparr> identificacion = 20123456789, denominacion = ''CLIENTE'',
       periodos = [\<lparr> periodo = ''202308'', entidades = [exEntity 4] \<rparr>,
                   \<lparr> periodo = ''202309'', entidades = [exEntity 2] \<rparr>] \<rparr>"

text \<open>The periods of \<open>exHistorical\<close> in the other order.\<close>

definition exHistoricalSwapped :: BCRAHistoricalData where
  "exHistoricalSwapped =
     \<lparr> identificacion = 20123456789, denominacion = ''CLIENTE'',
       periodos = [\<lparr> periodo = ''202312'', entidades = [exEntity 2, exEntity 3] \<rparr>,
                   \<lparr> periodo = ''202401'', entidades = [exEntity 1] \<rparr>] \<rparr>"

text \<open>A record whose most recent period, the second of the list, has no entity.\<close>

definition exEmptyPeriod :: BCRAHistoricalData where
  "exEmptyPeriod =
     \<lparr> identificacion = 20123456789, denominacion = ''CLIENTE'',
       periodos = [\<lparr> periodo = ''202401'', entidades = [exEntity 3] \<rparr>,
                   \<lparr> periodo = ''202402'', entidades = [] \<rparr>] \<rparr>"

text \<open>
  A record whose most recent period is neither the first nor the last of the list, with
  three entities.
\<close>

definition exRecentMax :: BCRAHistoricalData where
  "exRecentMax =
     \<lparr> identificacion = 20123456789, denominacion = ''CLIENTE'',
       periodos = [\<lparr> periodo = ''202311'', entidades = [exEntity 5] \<rparr>,
                   \<lparr> periodo = ''202401'', entidades = [exEntity 2, exEntity 4, exEntity 3] \<rparr>,
                   \<lparr> periodo = ''202312'', entidades = [exEntity 1] \<rparr>] \<rparr>"

text \<open>
  A record with a period thirteen months before the evaluation date, one exactly twelve
  months before it, and a recent one.
\<close>

definition exTwelve :: BCRAHistoricalData where
  "exTwelve =
     \<lparr> identificacion = 20123456789, denominacion = ''CLIENTE'',
       periodos = [\<lparr> periodo = ''202302'', entidades = [exEntity 5] \<rparr>,
                   \<lparr> periodo = ''202303'', entidades = [exEntity 2, exEntity 1] \<rparr>,
                   \<lparr> periodo = ''202401'', entidades = [exEntity 1] \<rparr>] \<rparr>"

text \<open>
  An evaluation date in March 2000, and two records with a label of the year 0099, which
  the constructor of dates reads as 1999.
\<close>

definition exDate2000 :: Date where
  "exDate2000 = \<lparr> toISOString = ''2000-03-15T12:00:00.000Z'', getFullYear = 2000, getMonth = 2 \<rparr>"

definition exCentury6 :: BCRAHistoricalData where
  "exCentury6 =
     \<lparr> identificacion = 20123456789, denominacion = ''CLIENTE'',
       periodos = [\<lparr> periodo = ''009912'', entidades = [exEntity 3] \<rparr>] \<rparr>"

definition exCentury12 :: BCRAHistoricalData where
  "exCentury12 =
     \<lparr> identificacion = 20123456789, denominacion = ''CLIENTE'',
       periodos = [\<lparr> periodo = ''009904'', entidades = [exEntity 3] \<rparr>] \<rparr>"

definition exCurrent :: BCRADebtData where
  "exCurrent =
     \<lparr> identificacion = 20123456789, denominacion = ''CLIENTE'',
       periodos = [\<lparr> periodo = ''202402'', entidades = [exCurrentEntity 5] \<rparr>] \<rparr>"

text \<open>Two records with the same two periods, of the same label, in the two orders.\<close>

definition exDuplicateA :: BCRAHistoricalData where
  "exDuplicateA =
     \<lparr> identificacion = 20123456789, denominacion = ''CLIENTE'',
       periodos = [\<lparr> periodo = ''202401'', entidades = [exEntity 1] \<rparr>,
                   \<lparr> periodo = ''202401'', entidades = [exEntity 3] \<rparr>] \<rparr>"

definition exDuplicateB :: BCRAHistoricalData where
  "exDuplicateB =
     \<lparr> identificacion = 20123456789, denominacion = ''CLIENTE'',
       periodos = [\<lparr> periodo = ''202401'', entidades = [exEntity 3] \<rparr>,
                   \<lparr> periodo = ''202401'', entidades = [exEntity 1] \<rparr>] \<rparr>"

text \<open>A network that answers every request with status 200 and no payload.\<close>

definition exNoPayload :: "string \<Rightarrow> 'r FetchOutcome" where
  "exNoPayload url = Resolved (ApiResponse 200 None None)"

section \<open>Properties\<close>

subsection \<open>Insufficient data\<close>

text \<open>
  C5. When the historical record is absent, whatever the current record is, the verdict
  has status PENDING, is not eligible, has its three situation fields null, and has
  exactly one failure reason: the "no bureau data" reason when the current record is
  absent too, the "no historical data" reason when the current record is present.
\<close>

theorem historical_absent_pending:
  "analyzeBCRAEligibility stamp currentDate currentData None =
     \<lparr> isEligible = False, status = BCRA_PENDING, currentSituation = None,
       last6MonthsWorstSituation = None, last12MonthsWorstSituation = None,
       failureReasons = [case currentData of None \<Rightarrow> reasonNoData | Some c \<Rightarrow> reasonNoHistorical],
       analysisDate = toISOString stamp \<rparr>"
  by (cases currentData) (simp_all add: analyzeBCRAEligibility_def)

text \<open>
  C8. With the historical record present, two present current records give the same
  verdict, field by field: the analyzer reads of the current record only whether it is
  there.
\<close>

theorem current_record_not_read:
  "analyzeBCRAEligibility stamp currentDate (Some c1) (Some h) =
   analyzeBCRAEligibility stamp currentDate (Some c2) (Some h)"
  by (simp add: analyzeBCRAEligibility_def)

subsection \<open>The sorted list\<close>

lemma sortInsert_not_Nil: "sortInsert f a bs \<noteq> []"
  by (cases bs) simp_all

lemma Array_sort_Nil_iff: "Array_sort f ps = [] \<longleftrightarrow> ps = []"
  by (cases ps) (simp_all add: sortInsert_not_Nil)

lemma set_sortInsert: "set (sortInsert f a bs) = insert a (set bs)"
  by (induction bs) auto

lemma set_Array_sort: "set (Array_sort f ps) = set ps"
  by (induction ps) (simp_all add: set_sortInsert)

lemma sortedPeriodsOf_Cons:
  assumes "ps \<noteq> []"
  obtains m rest where "sortedPeriodsOf ps = m # rest"
  using assms Array_sort_Nil_iff [of _ ps] unfolding sortedPeriodsOf_def by (meson list.exhaust)

subsection \<open>The verdict\<close>

text \<open>
  C4. With the historical record present and its period list not empty, the verdict is
  eligible exactly when its list of failure reasons is empty, its status is APTO when
  eligible and NO_APTO otherwise, and its status is not PENDING.
\<close>

theorem verdict_of_reasons:
  assumes "periodos h \<noteq> []"
  shows "isEligible (analyzeBCRAEligibility stamp currentDate currentData (Some h)) =
           (failureReasons (analyzeBCRAEligibility stamp currentDate currentData (Some h)) = [])
       \<and> status (analyzeBCRAEligibility stamp currentDate currentData (Some h)) =
           (if isEligible (analyzeBCRAEligibility stamp currentDate currentData (Some h))
            then BCRA_APTO else BCRA_NO_APTO)
       \<and> status (analyzeBCRAEligibility stamp currentDate currentData (Some h)) \<noteq> BCRA_PENDING"
proof -
  obtain m rest where "sortedPeriodsOf (periodos h) = m # rest"
    using assms by (rule sortedPeriodsOf_Cons)
  then show ?thesis
    by (simp add: analyzeBCRAEligibility_def sortedPeriodsOf_def Let_def split: list.splits)
qed

theorem verdict_of_reasons_witness:
  "periodos exHistorical \<noteq> []
   \<and> isEligible (analyzeBCRAEligibility exDate exDate None (Some exHistorical)) =
       (failureReasons (analyzeBCRAEligibility exDate exDate None (Some exHistorical)) = [])
   \<and> status (analyzeBCRAEligibility exDate exDate None (Some exHistorical)) =
       (if isEligible (analyzeBCRAEligibility exDate exDate None (Some exHistorical))
        then BCRA_APTO else BCRA_NO_APTO)
   \<and> status (analyzeBCRAEligibility exDate exDate None (Some exHistorical)) \<noteq> BCRA_PENDING"
proof -
  have ne: "periodos exHistorical \<noteq> []"
    by (simp add: exHistorical_def)
  show ?thesis
    using ne verdict_of_reasons [OF ne, of exDate exDate None] by simp
qed

subsection \<open>The bureau client\<close>

text \<open>
  C6. For a taxpayer identifier whose decimal digits do not number eleven, both fetch
  operations throw the error of status 400 with one diagnostic message, and request no
  URL.
\<close>

theorem invalid_identifier_rejected:
  assumes "length (filter isDigit cuit) \<noteq> 11"
  shows "fetchBCRADebtData net cuit =
           ([], Inl (BCRAApiError ''CUIT must have exactly 11 digits'' 400 [msgParametroErroneo]))
       \<and> fetchBCRAHistoricalData net' cuit =
           ([], Inl (BCRAApiError ''CUIT must have exactly 11 digits'' 400 [msgParametroErroneo]))"
  using assms by (simp add: fetchBCRADebtData_def fetchBCRAHistoricalData_def)

theorem invalid_identifier_rejected_witness:
  "fetchBCRADebtData exNoPayload ''20-1234567-9'' =
     ([], Inl (BCRAApiError ''CUIT must have exactly 11 digits'' 400 [msgParametroErroneo]))
   \<and> fetchBCRAHistoricalData exNoPayload ''20-1234567-9'' =
     ([], Inl (BCRAApiError ''CUIT must have exactly 11 digits'' 400 [msgParametroErroneo]))"
proof -
  have short: "length (filter isDigit ''20-1234567-9'') \<noteq> 11"
    by (simp add: isDigit_def)
  show ?thesis
    using invalid_identifier_rejected [OF short, of exNoPayload exNoPayload] by simp
qed

text \<open>
  C10. For an identifier of eleven digits, when the body of the response has status
  200 and no results, each fetch operation throws an error of status 200 with an empty
  list of diagnostics, after its one request; it returns no record.
\<close>

theorem success_without_payload_fails:
  assumes "length (filter isDigit cuit) = 11"
    and "net (BCRA_API_BASE_URL @ ''/Deudas/'' @ filter isDigit cuit)
           = Resolved (ApiResponse 200 None ms)"
    and "net' (BCRA_API_BASE_URL @ ''/Deudas/Historicas/'' @ filter isDigit cuit)
           = Resolved (ApiResponse 200 None ms')"
  shows "fetchBCRADebtData net cuit =
           ([BCRA_API_BASE_URL @ ''/Deudas/'' @ filter isDigit cuit],
            Inl (BCRAApiError ''No results in successful response'' 200 []))
       \<and> fetchBCRAHistoricalData net' cuit =
           ([BCRA_API_BASE_URL @ ''/Deudas/Historicas/'' @ filter isDigit cuit],
            Inl (BCRAApiError ''No results in successful response'' 200 []))"
  using assms by (simp add: fetchBCRADebtData_def fetchBCRAHistoricalData_def Let_def)

theorem success_without_payload_fails_witness:
  "snd (fetchBCRADebtData exNoPayload ''20-12345678-9'') =
     Inl (BCRAApiError ''No results in successful response'' 200 [])
   \<and> snd (fetchBCRAHistoricalData exNoPayload ''20-12345678-9'') =
     Inl (BCRAApiError ''No results in successful response'' 200 [])"
proof -
  have eleven: "length (filter isDigit ''20-12345678-9'') = 11"
    by (simp add: isDigit_def)
  show ?thesis
    using success_without_payload_fails [OF eleven, of exNoPayload None exNoPayload None]
    by (simp add: exNoPayload_def)
qed

subsection \<open>The library functions\<close>

text \<open>
  The comparator of the sort is the lexicographic order of the labels.
\<close>

lemma localeCompare_le: "localeCompare a b \<le> 0 \<longleftrightarrow> a \<le> b"
  by (induction a b rule: localeCompare.induct)
     (auto simp: less_char_def less_eq_char_def)

lemma Math_max_Max: "Math_max x xs = Max (set (x # xs))"
  using Max.set_eq_fold [of x xs] by (simp add: Math_max_def)

lemma hd_sortInsert:
  "hd (sortInsert f a bs) = (if bs = [] \<or> f a (hd bs) \<le> 0 then a else hd bs)"
  by (cases bs) simp_all

text \<open>On a string of decimal digits, \<^verbatim>\<open>parseInt\<close> is the decimal value.\<close>

lemma isDigit_digitValue: "isDigit c \<Longrightarrow> digitValue c = Some (of_char c - 48)"
  by (simp add: isDigit_def digitValue_def)

lemma isDigit_radix: "isDigit c \<Longrightarrow> isRadixDigit 10 c"
  by (auto simp: isDigit_def isRadixDigit_def digitValue_def)

lemma isDigit_plain:
  "isDigit c \<Longrightarrow> \<not> isWhiteSpace c \<and> c \<noteq> CHR ''-'' \<and> c \<noteq> CHR ''+'' \<and> c \<noteq> CHR ''x'' \<and> c \<noteq> CHR ''X''"
  by (auto simp: isDigit_def isWhiteSpace_def)

lemma digitsValue_decimal_aux:
  "list_all isDigit ds \<Longrightarrow>
     foldl (\<lambda>a c. 10 * a + (case digitValue c of Some v \<Rightarrow> v | None \<Rightarrow> 0)) k ds
       = foldl (\<lambda>a c. 10 * a + (of_char c - 48)) k ds"
  by (induction ds arbitrary: k) (simp_all add: isDigit_digitValue)

lemma parseInt_digits:
  assumes "ds \<noteq> []" and "list_all isDigit ds"
  shows "parseInt ds = Some (int (decimalValue ds))"
proof -
  obtain c r where ds: "ds = c # r" using assms(1) by (cases ds) auto
  have c: "isDigit c" and r: "list_all isDigit r" using assms(2) ds by simp_all
  have tw: "takeWhile (isRadixDigit 10) ds = ds"
    using assms(2) by (auto simp: takeWhile_eq_all_conv list_all_iff isDigit_radix)
  have nohex: "(case ds of a # b # r \<Rightarrow> a = CHR ''0'' \<and> (b = CHR ''x'' \<or> b = CHR ''X'') | _ \<Rightarrow> False) = False"
    using r ds by (cases r) (auto dest: isDigit_plain)
  have val: "digitsValue 10 ds = decimalValue ds"
    using assms(2) by (simp add: digitsValue_def decimalValue_def digitsValue_decimal_aux)
  have s1: "dropWhile isWhiteSpace ds = ds"
    using c ds isDigit_plain by simp
  have sg: "(case ds of c # r \<Rightarrow> (if c = CHR ''-'' then - 1 else 1) | [] \<Rightarrow> (1::int)) = 1"
    using c ds isDigit_plain by auto
  have s2: "(case ds of c # r \<Rightarrow> (if c = CHR ''-'' \<or> c = CHR ''+'' then r else ds) | [] \<Rightarrow> ds) = ds"
    using c ds isDigit_plain by auto
  show ?thesis
    unfolding parseInt_def Let_def s1 sg s2 nohex if_False tw
    using assms(1) val by simp
qed

lemma substring_year: "substring l 0 4 = take 4 l"
  by (simp add: substring_def)

lemma substring_month: "substring l 4 6 = take 2 (drop 4 l)"
  by (simp add: substring_def)

subsection \<open>The steps of the analyzer, one by one\<close>

lemma getWorst_worstSituation: "getWorstSituationForPeriod p = worstSituation p"
proof (cases "entidades p")
  case Nil
  then show ?thesis by (simp add: getWorstSituationForPeriod_def worstSituation_def)
next
  case (Cons e es)
  then show ?thesis
    by (simp add: getWorstSituationForPeriod_def worstSituation_def Math_max_Max del: Max_insert)
qed

lemma windowWorst_Max:
  "windowWorst d N ps =
     (if windowPeriods d N ps = [] then None
      else Some (Max (worstSituation ` set (windowPeriods d N ps))))"
proof (cases "windowPeriods d N ps")
  case Nil
  then show ?thesis by (simp add: windowWorst_def)
next
  case (Cons q qs)
  have "Math_max (getWorstSituationForPeriod q) (map getWorstSituationForPeriod qs)
          = Max (worstSituation ` set (q # qs))"
    unfolding Math_max_Max by (simp add: getWorst_worstSituation del: Max_insert)
  with Cons show ?thesis by (simp add: windowWorst_def)
qed

lemma analyze_sorted:
  assumes "sortedPeriodsOf (periodos h) = m # rest"
  shows "analyzeBCRAEligibility stamp currentDate currentData (Some h) =
     \<lparr> isEligible =
         (exceeding 1 reasonCurrent (Some (getWorstSituationForPeriod m))
            @ exceeding 1 reason6Months (windowWorst currentDate 6 (m # rest))
            @ exceeding 2 reason12Months (windowWorst currentDate 12 (m # rest)) = []),
       status =
         (if exceeding 1 reasonCurrent (Some (getWorstSituationForPeriod m))
            @ exceeding 1 reason6Months (windowWorst currentDate 6 (m # rest))
            @ exceeding 2 reason12Months (windowWorst currentDate 12 (m # rest)) = []
          then BCRA_APTO else BCRA_NO_APTO),
       currentSituation = Some (getWorstSituationForPeriod m),
       last6MonthsWorstSituation = windowWorst currentDate 6 (m # rest),
       last12MonthsWorstSituation = windowWorst currentDate 12 (m # rest),
       failureReasons =
         exceeding 1 reasonCurrent (Some (getWorstSituationForPeriod m))
            @ exceeding 1 reason6Months (windowWorst currentDate 6 (m # rest))
            @ exceeding 2 reason12Months (windowWorst currentDate 12 (m # rest)),
       analysisDate = toISOString stamp \<rparr>"
  using assms
  by (simp add: analyzeBCRAEligibility_def sortedPeriodsOf_def Let_def windowWorst_def
        windowPeriods_def exceeding_def split: list.splits)

text \<open>The head of the sorted list is the most recent period by label.\<close>

lemma find_stronger:
  assumes "find P xs = Some m" and "Q m" and "\<And>x. x \<in> set xs \<Longrightarrow> Q x \<Longrightarrow> P x"
  shows "find Q xs = Some m"
  using assms by (induction xs) (auto split: if_splits)

lemma find_first_Some:
  assumes "find P xs = Some m"
  shows "m \<in> set xs" and "P m"
  using assms by (induction xs) (auto split: if_splits)

lemma mostRecent_sorted:
  "ps \<noteq> [] \<Longrightarrow> mostRecentByLabel ps = Some (hd (sortedPeriodsOf ps))"
proof (induction ps)
  case Nil
  then show ?case by simp
next
  case (Cons a as)
  show ?case
  proof (cases "as = []")
    case True
    then show ?thesis
      by (simp add: mostRecentByLabel_def carriesGreatestLabel_def sortedPeriodsOf_def)
  next
    case False
    define m where "m = hd (sortedPeriodsOf as)"
    have IH: "find (carriesGreatestLabel as) as = Some m"
      using Cons.IH False by (simp add: mostRecentByLabel_def m_def)
    have sorted_ne: "Array_sort (\<lambda>a b. localeCompare (periodo b) (periodo a)) as \<noteq> []"
      using False by (simp add: Array_sort_Nil_iff)
    have hd_eq: "hd (sortedPeriodsOf (a # as)) = (if periodo m \<le> periodo a then a else m)"
      using sorted_ne by (simp add: sortedPeriodsOf_def hd_sortInsert localeCompare_le m_def)
    have m_in: "m \<in> set as" and m_max: "\<forall>q\<in>set as. periodo q \<le> periodo m"
      using find_first_Some [OF IH] by (simp_all add: carriesGreatestLabel_def list_all_iff)
    show ?thesis
    proof (cases "periodo m \<le> periodo a")
      case True
      have "carriesGreatestLabel (a # as) a"
        using m_max True by (auto simp: carriesGreatestLabel_def list_all_iff)
      then show ?thesis
        using True hd_eq by (simp add: mostRecentByLabel_def)
    next
      case nle: False
      have a_le: "periodo a \<le> periodo m" using nle by simp
      have not_a: "\<not> carriesGreatestLabel (a # as) a"
        using nle m_in by (auto simp: carriesGreatestLabel_def list_all_iff)
      have "find (carriesGreatestLabel (a # as)) as = Some m"
      proof (rule find_stronger [OF IH])
        show "carriesGreatestLabel (a # as) m"
          using a_le m_max by (simp add: carriesGreatestLabel_def list_all_iff)
        show "carriesGreatestLabel as x" if "carriesGreatestLabel (a # as) x" for x
          using that by (simp add: carriesGreatestLabel_def)
      qed
      then show ?thesis
        using not_a nle hd_eq by (simp add: mostRecentByLabel_def)
    qed
  qed
qed

text \<open>
  On well-formed labels, with the evaluation year from 100 on, the window test of the
  source is the test of the specification.
\<close>

lemma parseInt_year:
  assumes "wellFormedLabel l"
  shows "parseInt (substring l 0 4) = Some (labelYear l)"
proof -
  have "take 4 l \<noteq> []" using assms by (auto simp: wellFormedLabel_def)
  moreover have "list_all isDigit (take 4 l)"
    using assms by (auto simp: wellFormedLabel_def list_all_iff dest: in_set_takeD)
  ultimately show ?thesis
    by (simp add: substring_year parseInt_digits labelYear_def)
qed

lemma parseInt_month:
  assumes "wellFormedLabel l"
  shows "parseInt (substring l 4 6) = Some (labelMonth l)"
proof -
  have eq: "take 2 (drop 4 l) = drop 4 l" using assms by (simp add: wellFormedLabel_def)
  have "drop 4 l \<noteq> []" using assms by (auto simp: wellFormedLabel_def)
  moreover have "list_all isDigit (drop 4 l)"
    using assms by (auto simp: wellFormedLabel_def list_all_iff dest: in_set_dropD)
  ultimately show ?thesis
    by (simp add: substring_month eq parseInt_digits labelMonth_def)
qed

lemma isPeriodWithinMonths_withinMonths:
  assumes "wellFormedLabel l" and "100 \<le> getFullYear d"
  shows "isPeriodWithinMonths (getFullYear d) (getMonth d + 1) l N = withinMonths d N l"
proof -
  have "100 \<le> labelYear l" using assms(1) by (simp add: wellFormedLabel_def)
  then show ?thesis
    using assms(2)
    by (auto simp add: isPeriodWithinMonths_def parseInt_year [OF assms(1)] parseInt_month [OF assms(1)]
          new_Date_def date_ge_def withinMonths_def evaluationMonth_def firstOfMonth_def)
qed

lemma isPeriodWithinMonths_mono:
  assumes "isPeriodWithinMonths y m l N" and "N \<le> N'"
  shows "isPeriodWithinMonths y m l N'"
  using assms
  by (auto simp: isPeriodWithinMonths_def new_Date_def date_ge_def Let_def split: option.splits)

lemma set_windowPeriods_sorted:
  "set (windowPeriods d N (sortedPeriodsOf ps)) = set (windowPeriods d N ps)"
  by (simp add: windowPeriods_def sortedPeriodsOf_def set_Array_sort)

lemma windowPeriods_qualifying:
  assumes "wellFormedLabels ps" and "100 \<le> getFullYear d"
  shows "windowPeriods d N ps = qualifying d N ps"
  unfolding windowPeriods_def qualifying_def
  by (rule filter_cong [OF refl])
     (use assms in \<open>simp add: wellFormedLabels_def list_all_iff isPeriodWithinMonths_withinMonths\<close>)

lemma wellFormedLabels_sorted: "wellFormedLabels (sortedPeriodsOf ps) = wellFormedLabels ps"
  by (simp add: wellFormedLabels_def list_all_iff sortedPeriodsOf_def set_Array_sort)

lemma windowPeriods_sorted_Nil:
  "windowPeriods d N (sortedPeriodsOf ps) = [] \<longleftrightarrow> windowPeriods d N ps = []"
  using set_windowPeriods_sorted [of d N ps] by (metis set_empty)

lemma windowWorst_sorted:
  "windowWorst d N (sortedPeriodsOf ps) =
     (if windowPeriods d N ps = [] then None
      else Some (Max (worstSituation ` set (windowPeriods d N ps))))"
  by (simp add: windowWorst_Max windowPeriods_sorted_Nil set_windowPeriods_sorted)

lemma analyze_fields:
  assumes "periodos h \<noteq> []"
  shows "currentSituation (analyzeBCRAEligibility stamp d c (Some h))
           = Some (getWorstSituationForPeriod (hd (sortedPeriodsOf (periodos h))))"
    and "last6MonthsWorstSituation (analyzeBCRAEligibility stamp d c (Some h))
           = windowWorst d 6 (sortedPeriodsOf (periodos h))"
    and "last12MonthsWorstSituation (analyzeBCRAEligibility stamp d c (Some h))
           = windowWorst d 12 (sortedPeriodsOf (periodos h))"
    and "failureReasons (analyzeBCRAEligibility stamp d c (Some h))
           = exceeding 1 reasonCurrent (Some (getWorstSituationForPeriod (hd (sortedPeriodsOf (periodos h)))))
             @ exceeding 1 reason6Months (windowWorst d 6 (sortedPeriodsOf (periodos h)))
             @ exceeding 2 reason12Months (windowWorst d 12 (sortedPeriodsOf (periodos h)))"
proof -
  obtain m rest where s: "sortedPeriodsOf (periodos h) = m # rest"
    using assms by (rule sortedPeriodsOf_Cons)
  note a = analyze_sorted [OF s, of stamp d c]
  show "currentSituation (analyzeBCRAEligibility stamp d c (Some h))
           = Some (getWorstSituationForPeriod (hd (sortedPeriodsOf (periodos h))))"
    unfolding a s by simp
  show "last6MonthsWorstSituation (analyzeBCRAEligibility stamp d c (Some h))
           = windowWorst d 6 (sortedPeriodsOf (periodos h))"
    unfolding a s by simp
  show "last12MonthsWorstSituation (analyzeBCRAEligibility stamp d c (Some h))
           = windowWorst d 12 (sortedPeriodsOf (periodos h))"
    unfolding a s by simp
  show "failureReasons (analyzeBCRAEligibility stamp d c (Some h))
           = exceeding 1 reasonCurrent (Some (getWorstSituationForPeriod (hd (sortedPeriodsOf (periodos h)))))
             @ exceeding 1 reason6Months (windowWorst d 6 (sortedPeriodsOf (periodos h)))
             @ exceeding 2 reason12Months (windowWorst d 12 (sortedPeriodsOf (periodos h)))"
    unfolding a s by simp
qed

text \<open>The three kinds of reasons of the checks differ in their fixed text.\<close>

lemma reason_kinds:
  "reasonCurrent n \<noteq> reason6Months k" "reasonCurrent n \<noteq> reason12Months k"
  "reason6Months n \<noteq> reasonCurrent k" "reason6Months n \<noteq> reason12Months k"
  "reason12Months n \<noteq> reasonCurrent k" "reason12Months n \<noteq> reason6Months k"
  by (simp_all add: reasonCurrent_def reason6Months_def reason12Months_def)

lemma in_exceeding:
  "s \<in> set (exceeding limit reason v) \<longleftrightarrow> (\<exists>n. v = Some n \<and> limit < n \<and> s = reason n)"
  by (cases v) (auto simp: exceeding_def)

lemma reasonCurrent_in:
  "reasonCurrent n \<in> set (exceeding 1 reasonCurrent u @ exceeding 1 reason6Months v @ exceeding 2 reason12Months w)
     \<longleftrightarrow> (\<exists>k. u = Some k \<and> 1 < k \<and> reasonCurrent n = reasonCurrent k)"
  by (auto simp: in_exceeding reason_kinds)

lemma reason6Months_in:
  "reason6Months n \<in> set (exceeding 1 reasonCurrent u @ exceeding 1 reason6Months v @ exceeding 2 reason12Months w)
     \<longleftrightarrow> (\<exists>k. v = Some k \<and> 1 < k \<and> reason6Months n = reason6Months k)"
  by (auto simp: in_exceeding reason_kinds)

lemma reason12Months_in:
  "reason12Months n \<in> set (exceeding 1 reasonCurrent u @ exceeding 1 reason6Months v @ exceeding 2 reason12Months w)
     \<longleftrightarrow> (\<exists>k. w = Some k \<and> 2 < k \<and> reason12Months n = reason12Months k)"
  by (auto simp: in_exceeding reason_kinds)

lemmas label_simps =
  wellFormedLabels_def wellFormedLabel_def isDigit_def labelYear_def labelMonth_def decimalValue_def
  qualifying_def withinMonths_def evaluationMonth_def firstOfMonth_def

subsection \<open>The current check\<close>

text \<open>
  C3. With the historical record present, its period list not empty and its labels made
  of decimal digits (as the labels \<^verbatim>\<open>YYYYMM\<close> are), \<open>currentSituation\<close> is the worst
  situation of the most recent period by label: the greatest situation code of its
  entities, and 1 (not null, and no failure) when it has no entity. The failure reason
  that cites the current situation is in the list when that value is above 1, and no
  reason of that kind is in the list otherwise.
\<close>

theorem current_check:
  assumes "periodos h \<noteq> []" and "digitLabels (periodos h)"
  shows "\<exists>p. mostRecentByLabel (periodos h) = Some p
           \<and> currentSituation (analyzeBCRAEligibility stamp currentDate currentData (Some h))
               = Some (worstSituation p)
           \<and> (if 1 < worstSituation p
              then reasonCurrent (worstSituation p)
                     \<in> set (failureReasons (analyzeBCRAEligibility stamp currentDate currentData (Some h)))
              else \<forall>n. reasonCurrent n
                     \<notin> set (failureReasons (analyzeBCRAEligibility stamp currentDate currentData (Some h))))"
  unfolding analyze_fields [OF assms(1)] reasonCurrent_in mostRecent_sorted [OF assms(1)]
    getWorst_worstSituation
  by simp

theorem current_check_witness:
  "currentSituation (analyzeBCRAEligibility exDate exDate None (Some exRecentMax)) = Some 4
   \<and> reasonCurrent 4 \<in> set (failureReasons (analyzeBCRAEligibility exDate exDate None (Some exRecentMax)))
   \<and> currentSituation (analyzeBCRAEligibility exDate exDate None (Some exEmptyPeriod)) = Some 1
   \<and> (\<forall>n. reasonCurrent n \<notin> set (failureReasons (analyzeBCRAEligibility exDate exDate None (Some exEmptyPeriod))))"
proof -
  have ne: "periodos exRecentMax \<noteq> []"
    by (simp add: exRecentMax_def)
  have dg: "digitLabels (periodos exRecentMax)"
    by (simp add: exRecentMax_def digitLabels_def isDigit_def)
  have mr: "mostRecentByLabel (periodos exRecentMax)
              = Some \<lparr> periodo = ''202401'', entidades = [exEntity 2, exEntity 4, exEntity 3] \<rparr>"
    by (simp add: exRecentMax_def mostRecentByLabel_def carriesGreatestLabel_def
          less_eq_char_def less_char_def)
  have w: "worstSituation \<lparr> periodo = ''202401'', entidades = [exEntity 2, exEntity 4, exEntity 3] \<rparr> = 4"
    by (simp add: worstSituation_def exEntity_def)
  have ne': "periodos exEmptyPeriod \<noteq> []"
    by (simp add: exEmptyPeriod_def)
  have dg': "digitLabels (periodos exEmptyPeriod)"
    by (simp add: exEmptyPeriod_def digitLabels_def isDigit_def)
  have mr': "mostRecentByLabel (periodos exEmptyPeriod) = Some \<lparr> periodo = ''202402'', entidades = [] \<rparr>"
    by (simp add: exEmptyPeriod_def mostRecentByLabel_def carriesGreatestLabel_def
          less_eq_char_def less_char_def)
  have w': "worstSituation \<lparr> periodo = ''202402'', entidades = ([] :: BCRAHistoricalEntity list) \<rparr> = 1"
    by (simp add: worstSituation_def)
  show ?thesis
    using current_check [OF ne dg, of exDate exDate None] current_check [OF ne' dg', of exDate exDate None]
    by (auto simp: mr w mr' w')
qed

subsection \<open>The window checks\<close>

text \<open>
  A label of the year 0099 is read by the constructor of dates as of the year 1999. In
  March 2000 the period 009912 is then inside the window of 6 months of the source,
  though its first-of-month date is nineteen centuries before the evaluation month
  minus 6: no period qualifies, and yet \<open>last6MonthsWorstSituation\<close> is not null.
\<close>

theorem six_month_check_counterexample:
  "periodos exCentury6 \<noteq> []
   \<and> qualifying exDate2000 6 (periodos exCentury6) = []
   \<and> last6MonthsWorstSituation (analyzeBCRAEligibility exDate2000 exDate2000 None (Some exCentury6)) = Some 3"
  by (simp add: exCentury6_def exDate2000_def exEntity_def label_simps
        analyzeBCRAEligibility_def getWorstSituationForPeriod_def Math_max_def
        isPeriodWithinMonths_def parseInt_def isWhiteSpace_def isRadixDigit_def digitValue_def
        digitsValue_def substring_def new_Date_def date_ge_def Let_def)

text \<open>
  C1, amended. With the historical record present, its period list not empty, its
  labels six decimal digits with a year from 0100 on, and the evaluation date in a year
  from 100 on, the filter of the 6-month check keeps exactly the periods whose
  first-of-month date is on or after the evaluation month minus 6 (a period exactly 6
  months back is kept). If a period qualifies, \<open>last6MonthsWorstSituation\<close> is the
  maximum of the worst situations of the qualifying periods, the 6-month reason citing
  it is in the list when it is above 1, and no 6-month reason is in the list otherwise.
  If no period qualifies, the field stays null and no 6-month reason is in the list.
\<close>

theorem six_month_check:
  assumes "periodos h \<noteq> []" and "wellFormedLabels (periodos h)" and "100 \<le> getFullYear currentDate"
  shows "let r = analyzeBCRAEligibility stamp currentDate currentData (Some h);
             Q = qualifying currentDate 6 (periodos h);
             M = Max (worstSituation ` set Q)
         in windowPeriods currentDate 6 (sortedPeriodsOf (periodos h))
              = qualifying currentDate 6 (sortedPeriodsOf (periodos h))
            \<and> (if Q = []
                then last6MonthsWorstSituation r = None
                     \<and> (\<forall>n. reason6Months n \<notin> set (failureReasons r))
                else last6MonthsWorstSituation r = Some M
                     \<and> (if 1 < M then reason6Months M \<in> set (failureReasons r)
                        else \<forall>n. reason6Months n \<notin> set (failureReasons r)))"
proof -
  have w: "windowPeriods currentDate 6 (periodos h) = qualifying currentDate 6 (periodos h)"
    using assms(2,3) by (rule windowPeriods_qualifying)
  have ws: "windowPeriods currentDate 6 (sortedPeriodsOf (periodos h))
              = qualifying currentDate 6 (sortedPeriodsOf (periodos h))"
    using assms(2,3) by (intro windowPeriods_qualifying) (simp_all add: wellFormedLabels_sorted)
  show ?thesis
    unfolding Let_def ws analyze_fields [OF assms(1)] reason6Months_in windowWorst_sorted w
    by simp
qed

theorem six_month_check_witness:
  "last6MonthsWorstSituation (analyzeBCRAEligibility exDate exDate None (Some exBoundary)) = Some 2
   \<and> reason6Months 2 \<in> set (failureReasons (analyzeBCRAEligibility exDate exDate None (Some exBoundary)))"
proof -
  have ne: "periodos exBoundary \<noteq> []"
    by (simp add: exBoundary_def)
  have wf: "wellFormedLabels (periodos exBoundary)"
    by (simp add: exBoundary_def label_simps)
  have yr: "100 \<le> getFullYear exDate"
    by (simp add: exDate_def)
  have Q: "qualifying exDate 6 (periodos exBoundary) = [\<lparr> periodo = ''202309'', entidades = [exEntity 2] \<rparr>]"
    by (simp add: exBoundary_def exDate_def label_simps)
  have M: "worstSituation \<lparr> periodo = ''202309'', entidades = [exEntity 2] \<rparr> = 2"
    by (simp add: worstSituation_def exEntity_def)
  show ?thesis
    using six_month_check [OF ne wf yr, of exDate None] by (simp add: Let_def Q M)
qed

text \<open>
  The same in the window of 12 months: in March 2000 the period 009904 is inside the
  window of the source, no period qualifies, and \<open>last12MonthsWorstSituation\<close> is not
  null.
\<close>

theorem twelve_month_check_counterexample:
  "periodos exCentury12 \<noteq> []
   \<and> qualifying exDate2000 12 (periodos exCentury12) = []
   \<and> last12MonthsWorstSituation (analyzeBCRAEligibility exDate2000 exDate2000 None (Some exCentury12)) = Some 3"
  by (simp add: exCentury12_def exDate2000_def exEntity_def label_simps
        analyzeBCRAEligibility_def getWorstSituationForPeriod_def Math_max_def
        isPeriodWithinMonths_def parseInt_def isWhiteSpace_def isRadixDigit_def digitValue_def
        digitsValue_def substring_def new_Date_def date_ge_def Let_def)

text \<open>
  C2, amended. Under the same conditions on the labels and on the evaluation date, the
  12-month check is the same with a window of 12 months and the limit 2: the filter
  keeps exactly the periods whose first-of-month date is on or after the evaluation
  month minus 12; if a period qualifies, \<open>last12MonthsWorstSituation\<close> is the maximum of
  the worst situations of the qualifying periods, and the 12-month reason citing it is
  in the list when it is above 2 and no 12-month reason otherwise; if no period
  qualifies, the field stays null and no 12-month reason is in the list.
\<close>

theorem twelve_month_check:
  assumes "periodos h \<noteq> []" and "wellFormedLabels (periodos h)" and "100 \<le> getFullYear currentDate"
  shows "let r = analyzeBCRAEligibility stamp currentDate currentData (Some h);
             Q = qualifying currentDate 12 (periodos h);
             M = Max (worstSituation ` set Q)
         in windowPeriods currentDate 12 (sortedPeriodsOf (periodos h))
              = qualifying currentDate 12 (sortedPeriodsOf (periodos h))
            \<and> (if Q = []
                then last12MonthsWorstSituation r = None
                     \<and> (\<forall>n. reason12Months n \<notin> set (failureReasons r))
                else last12MonthsWorstSituation r = Some M
                     \<and> (if 2 < M then reason12Months M \<in> set (failureReasons r)
                        else \<forall>n. reason12Months n \<notin> set (failureReasons r)))"
proof -
  have w: "windowPeriods currentDate 12 (periodos h) = qualifying currentDate 12 (periodos h)"
    using assms(2,3) by (rule windowPeriods_qualifying)
  have ws: "windowPeriods currentDate 12 (sortedPeriodsOf (periodos h))
              = qualifying currentDate 12 (sortedPeriodsOf (periodos h))"
    using assms(2,3) by (intro windowPeriods_qualifying) (simp_all add: wellFormedLabels_sorted)
  show ?thesis
    unfolding Let_def ws analyze_fields [OF assms(1)] reason12Months_in windowWorst_sorted w
    by simp
qed

theorem twelve_month_check_witness:
  "last12MonthsWorstSituation (analyzeBCRAEligibility exDate exDate None (Some exTwelve)) = Some 2
   \<and> (\<forall>n. reason12Months n \<notin> set (failureReasons (analyzeBCRAEligibility exDate exDate None (Some exTwelve))))"
proof -
  have ne: "periodos exTwelve \<noteq> []"
    by (simp add: exTwelve_def)
  have wf: "wellFormedLabels (periodos exTwelve)"
    by (simp add: exTwelve_def label_simps)
  have yr: "100 \<le> getFullYear exDate"
    by (simp add: exDate_def)
  have Q: "qualifying exDate 12 (periodos exTwelve)
             = [\<lparr> periodo = ''202303'', entidades = [exEntity 2, exEntity 1] \<rparr>,
                \<lparr> periodo = ''202401'', entidades = [exEntity 1] \<rparr>]"
    by (simp add: exTwelve_def exDate_def label_simps)
  have w1: "worstSituation \<lparr> periodo = ''202303'', entidades = [exEntity 2, exEntity 1] \<rparr> = 2"
    by (simp add: worstSituation_def exEntity_def)
  have w2: "worstSituation \<lparr> periodo = ''202401'', entidades = [exEntity 1] \<rparr> = 1"
    by (simp add: worstSituation_def exEntity_def)
  show ?thesis
    using twelve_month_check [OF ne wf yr, of exDate None] by (simp add: Let_def Q w1 w2)
qed

text \<open>
  C9. In every verdict, when \<open>last6MonthsWorstSituation\<close> is not null,
  \<open>last12MonthsWorstSituation\<close> is not null either and is at least as great.
\<close>

theorem six_within_twelve:
  assumes "last6MonthsWorstSituation (analyzeBCRAEligibility stamp currentDate currentData historicalData) = Some a"
  shows "\<exists>b. last12MonthsWorstSituation (analyzeBCRAEligibility stamp currentDate currentData historicalData) = Some b
           \<and> a \<le> b"
proof (cases historicalData)
  case None
  then show ?thesis using assms by (cases currentData) (simp_all add: analyzeBCRAEligibility_def)
next
  case (Some h)
  show ?thesis
  proof (cases "periodos h = []")
    case True
    then show ?thesis using assms Some by (simp add: analyzeBCRAEligibility_def Let_def)
  next
    case False
    let ?W6 = "windowPeriods currentDate 6 (periodos h)"
    let ?W12 = "windowPeriods currentDate 12 (periodos h)"
    have six: "?W6 \<noteq> []" "a = Max (worstSituation ` set ?W6)"
      using assms unfolding Some analyze_fields [OF False] windowWorst_sorted
      by (simp_all split: if_splits)
    have sub: "set ?W6 \<subseteq> set ?W12"
      by (auto simp: windowPeriods_def intro: isPeriodWithinMonths_mono)
    then have ne12: "?W12 \<noteq> []" using six(1) by auto
    have "Max (worstSituation ` set ?W6) \<le> Max (worstSituation ` set ?W12)"
      by (rule Max_mono) (use sub six(1) in auto)
    then show ?thesis
      unfolding Some analyze_fields [OF False] windowWorst_sorted using ne12 six(2) by simp
  qed
qed

theorem six_within_twelve_witness:
  "last6MonthsWorstSituation (analyzeBCRAEligibility exDate exDate None (Some exHistorical)) = Some 3
   \<and> (\<exists>b. last12MonthsWorstSituation (analyzeBCRAEligibility exDate exDate None (Some exHistorical)) = Some b
          \<and> 3 \<le> b)"
proof -
  have six: "last6MonthsWorstSituation (analyzeBCRAEligibility exDate exDate None (Some exHistorical)) = Some 3"
    by (simp add: analyzeBCRAEligibility_def exHistorical_def exDate_def exEntity_def
          getWorstSituationForPeriod_def Math_max_def isPeriodWithinMonths_def parseInt_def
          isWhiteSpace_def isRadixDigit_def digitValue_def digitsValue_def substring_def
          new_Date_def date_ge_def Let_def)
  show ?thesis
    using six six_within_twelve [OF six] by simp
qed

subsection \<open>The order of the periods\<close>

text \<open>
  Two periods of the same label and of different worst situations: the sort keeps them
  in the order of the input, and \<open>currentSituation\<close> is that of the first one. The
  two records below have the same periods in the two orders.
\<close>

theorem order_dependence_counterexample:
  "mset (periodos exDuplicateB) = mset (periodos exDuplicateA)
   \<and> currentSituation (analyzeBCRAEligibility exDate exDate None (Some exDuplicateB))
       \<noteq> currentSituation (analyzeBCRAEligibility exDate exDate None (Some exDuplicateA))"
proof -
  have "mset (periodos exDuplicateB) = mset (periodos exDuplicateA)"
    by (simp add: exDuplicateA_def exDuplicateB_def)
  moreover have "currentSituation (analyzeBCRAEligibility exDate exDate None (Some exDuplicateA)) = Some 1"
    by (simp add: analyzeBCRAEligibility_def exDuplicateA_def exEntity_def Let_def
          getWorstSituationForPeriod_def Math_max_def split: list.splits)
  moreover have "currentSituation (analyzeBCRAEligibility exDate exDate None (Some exDuplicateB)) = Some 3"
    by (simp add: analyzeBCRAEligibility_def exDuplicateB_def exEntity_def Let_def
          getWorstSituationForPeriod_def Math_max_def split: list.splits)
  ultimately show ?thesis by simp
qed

lemma current_of_greatest:
  assumes "periodos h \<noteq> []"
  obtains p where "p \<in> set (periodos h)" and "carriesGreatestLabel (periodos h) p"
    and "currentSituation (analyzeBCRAEligibility stamp d c (Some h)) = Some (worstSituation p)"
proof -
  have "find (carriesGreatestLabel (periodos h)) (periodos h) = Some (hd (sortedPeriodsOf (periodos h)))"
    using mostRecent_sorted [OF assms] by (simp add: mostRecentByLabel_def)
  from find_first_Some [OF this] analyze_fields(1) [OF assms, of stamp d c] that
  show thesis by (simp add: getWorst_worstSituation)
qed

text \<open>Periods of pairwise distinct labels: one period only carries the greatest label.\<close>

lemma distinct_labels_agree:
  assumes "distinct (map periodo ps)" and "p \<in> set ps" and "q \<in> set ps"
    and "carriesGreatestLabel ps p" and "carriesGreatestLabel ps q"
  shows "p = q"
proof -
  have "periodo p \<le> periodo q" "periodo q \<le> periodo p"
    using assms(2-5) by (auto simp: carriesGreatestLabel_def list_all_iff)
  then have "periodo p = periodo q" by simp
  moreover have "inj_on periodo (set ps)" using assms(1) by (simp add: distinct_map)
  ultimately show ?thesis using assms(2,3) by (auto dest: inj_onD)
qed

text \<open>
  C7, amended. For every historical record whose labels are made of decimal digits and
  in which the periods that carry the greatest label have the same worst situation (as
  they do when no label occurs twice), and every permutation of its period list, the
  analyzer computes the same \<open>currentSituation\<close>: the worst situation of the periods
  that carry the greatest label.
\<close>

theorem current_situation_order_independent:
  assumes "mset (periodos h') = mset (periodos h)"
    and "digitLabels (periodos h)"
    and "\<forall>p\<in>set (periodos h). \<forall>q\<in>set (periodos h).
           carriesGreatestLabel (periodos h) p \<longrightarrow> carriesGreatestLabel (periodos h) q
             \<longrightarrow> worstSituation p = worstSituation q"
  shows "currentSituation (analyzeBCRAEligibility stamp currentDate currentData (Some h'))
           = currentSituation (analyzeBCRAEligibility stamp currentDate currentData (Some h))
       \<and> (\<forall>p\<in>set (periodos h). carriesGreatestLabel (periodos h) p \<longrightarrow>
             currentSituation (analyzeBCRAEligibility stamp currentDate currentData (Some h'))
               = Some (worstSituation p))"
proof (cases "periodos h = []")
  case True
  then have "periodos h' = []" using assms(1) by simp
  with True show ?thesis by (simp add: analyzeBCRAEligibility_def Let_def)
next
  case False
  then have ne': "periodos h' \<noteq> []" using assms(1) by auto
  have sets: "set (periodos h') = set (periodos h)"
    using assms(1) by (rule mset_eq_setD)
  obtain p where p: "p \<in> set (periodos h)" "carriesGreatestLabel (periodos h) p"
      "currentSituation (analyzeBCRAEligibility stamp currentDate currentData (Some h)) = Some (worstSituation p)"
    using False by (rule current_of_greatest)
  obtain q where q: "q \<in> set (periodos h')" "carriesGreatestLabel (periodos h') q"
      "currentSituation (analyzeBCRAEligibility stamp currentDate currentData (Some h')) = Some (worstSituation q)"
    using ne' by (rule current_of_greatest)
  have gq: "carriesGreatestLabel (periodos h) q"
    using q(2) sets by (simp add: carriesGreatestLabel_def list_all_iff)
  have same: "worstSituation x = worstSituation q"
    if "x \<in> set (periodos h)" and "carriesGreatestLabel (periodos h) x" for x
    using assms(3) that gq q(1) sets by blast
  have "worstSituation p = worstSituation q"
    using p(1,2) by (rule same)
  then show ?thesis using p(3) q(3) same by simp
qed

theorem current_situation_order_independent_witness:
  "currentSituation (analyzeBCRAEligibility exDate exDate None (Some exHistoricalSwapped))
     = currentSituation (analyzeBCRAEligibility exDate exDate None (Some exHistorical))
   \<and> currentSituation (analyzeBCRAEligibility exDate exDate None (Some exHistoricalSwapped)) = Some 1"
proof -
  have perm: "mset (periodos exHistoricalSwapped) = mset (periodos exHistorical)"
    by (simp add: exHistorical_def exHistoricalSwapped_def)
  have dg: "digitLabels (periodos exHistorical)"
    by (simp add: exHistorical_def digitLabels_def isDigit_def)
  have "distinct (map periodo (periodos exHistorical))"
    by (simp add: exHistorical_def)
  then have agree: "\<forall>p\<in>set (periodos exHistorical). \<forall>q\<in>set (periodos exHistorical).
           carriesGreatestLabel (periodos exHistorical) p \<longrightarrow> carriesGreatestLabel (periodos exHistorical) q
             \<longrightarrow> worstSituation p = worstSituation q"
    using distinct_labels_agree by blast
  have top: "\<lparr> periodo = ''202401'', entidades = [exEntity 1] \<rparr> \<in> set (periodos exHistorical)"
    "carriesGreatestLabel (periodos exHistorical) \<lparr> periodo = ''202401'', entidades = [exEntity 1] \<rparr>"
    by (simp_all add: exHistorical_def carriesGreatestLabel_def less_eq_char_def less_char_def)
  have w: "worstSituation \<lparr> periodo = ''202401'', entidades = [exEntity 1] \<rparr> = 1"
    by (simp add: worstSituation_def exEntity_def)
  show ?thesis
    using current_situation_order_independent [OF perm dg agree, of exDate exDate None] top w
    by auto
qed

end
